theory Spec2Isabelle
  imports Complex_Main "HOL-Library.Sublist" "HOL-Library.Multiset"
begin

chapter \<open>The Octav plugin: embedding\<close>

section \<open>Strings\<close>

text \<open>
  A JavaScript string is modelled as a \<^typ>\<open>string\<close>: the list of the bytes of its UTF-8
  encoding. The patterns and keywords of the plugin are ASCII, and an ASCII byte never
  occurs inside the encoding of another character, so searching for them in the bytes
  finds what searching in the UTF-16 code units finds.
\<close>

text \<open>\<^verbatim>\<open>String.prototype.includes\<close>: \<open>k\<close> occurs in \<open>s\<close> as a contiguous run.\<close>

fun str_includes :: "string \<Rightarrow> string \<Rightarrow> bool" where
  "str_includes [] k = (k = [])"
| "str_includes (c # cs) k = (prefix k (c # cs) \<or> str_includes cs k)"

text \<open>
  \<^verbatim>\<open>String.prototype.toLowerCase\<close> on the ASCII letters. JavaScript lower-cases the
  characters outside ASCII too; their bytes are carried through unchanged here. That
  does not change which keywords of the plugin a text contains: the only characters
  outside ASCII whose lower case holds an ASCII letter are U+212A, which gives \<^verbatim>\<open>k\<close>,
  a letter of no keyword, and U+0130, which gives \<^verbatim>\<open>i\<close> followed by U+0307, where
  every keyword goes on with a letter.
\<close>

definition toLowerChar :: "char \<Rightarrow> char" where
  "toLowerChar c =
     (let n = (of_char c :: nat) in if 65 \<le> n \<and> n \<le> 90 then char_of (n + 32) else c)"

definition toLowerCase :: "string \<Rightarrow> string" where
  "toLowerCase s = map toLowerChar s"

section \<open>Messages\<close>

text \<open>
  The part of the host's \<^verbatim>\<open>Memory\<close> the plugin reads: \<^verbatim>\<open>message.content.text\<close>.
  The source guards both steps with optional chaining, so both may be undefined.
\<close>

record Content =
  content_text :: "string option"

record Memory =
  content :: "Content option"

section \<open>The action's validate\<close>

definition fetchPortfolioBalancesKeyword :: "string list" where
  "fetchPortfolioBalancesKeyword =
     [''fetch portfolio'', ''get portfolio'', ''list portfolio balances'', ''portfolio'',
      ''display portfolio balances'']"

text \<open>\<^verbatim>\<open>message.content?.text?.toLowerCase() || ""\<close>\<close>

definition validate_content :: "Memory \<Rightarrow> string" where
  "validate_content message =
     (case content message of
        None \<Rightarrow> ''''
      | Some c \<Rightarrow> (case content_text c of None \<Rightarrow> '''' | Some t \<Rightarrow> toLowerCase t))"

definition validate :: "Memory \<Rightarrow> bool" where
  "validate message =
     (let content = validate_content message;
          isMatch = list_ex (\<lambda>keyword. str_includes content keyword) fetchPortfolioBalancesKeyword
      in isMatch)"

section \<open>The address extractor\<close>

definition isHexDigit :: "char \<Rightarrow> bool" where
  "isHexDigit c =
     (let n = (of_char c :: nat)
      in (97 \<le> n \<and> n \<le> 102) \<or> (65 \<le> n \<and> n \<le> 70) \<or> (48 \<le> n \<and> n \<le> 57))"

definition address_at :: "string \<Rightarrow> string option" where
  "address_at s =
     (if take 2 s = ''0x'' \<and> length (take 40 (drop 2 s)) = 40 \<and>
         list_all isHexDigit (take 40 (drop 2 s))
      then Some (take 42 s) else None)"

fun match_address :: "string \<Rightarrow> string option" where
  "match_address [] = None"
| "match_address (c # cs) =
     (case address_at (c # cs) of Some a \<Rightarrow> Some a | None \<Rightarrow> match_address cs)"

definition is_address :: "string \<Rightarrow> bool" where
  "is_address a \<longleftrightarrow> length a = 42 \<and> take 2 a = ''0x'' \<and> list_all isHexDigit (drop 2 a)"

section \<open>The data model\<close>

text \<open>
  A JavaScript object with string keys is the list of its own properties in the order of
  their creation; the keys of an object are distinct.
\<close>

type_synonym 'a js_object = "(string \<times> 'a) list"

text \<open>The types of \<^verbatim>\<open>types.ts\<close>: every monetary field is a string.\<close>

record Chain =
  chain_name :: string
  chain_key :: string
  chain_value :: string
  chain_totalCostBasis :: string
  chain_totalClosedPnl :: string
  chain_totalOpenPnl :: string

record Protocol =
  protocol_name :: string
  protocol_key :: string
  protocol_value :: string
  protocol_totalCostBasis :: string
  protocol_totalClosedPnl :: string
  protocol_totalOpenPnl :: string
  protocol_chains :: "Chain js_object"

record OctavPortfolioBalance =
  address :: string
  networth :: string
  assetByProtocols :: "Protocol js_object"
  chains :: "Chain js_object"

section \<open>Numbers\<close>

text \<open>
  A JavaScript number: a double. \<open>Finite q\<close> is the finite double of value \<open>q\<close>; the two
  zeros are both \<open>Finite 0\<close> (neither the comparison of the sort nor
  \<^verbatim>\<open>toFixed\<close> tells them apart).
\<close>

datatype number = NaN | PosInfinity | NegInfinity | Finite real

subsection \<open>Rounding to a double\<close>

fun bit_length :: "nat \<Rightarrow> nat" where
  "bit_length n = (if n = 0 then 0 else Suc (bit_length (n div 2)))"

declare bit_length.simps [simp del]

text \<open>The \<open>e\<close> with \<open>2 ^ e \<le> num / den < 2 ^ (e + 1)\<close>, for \<open>num\<close> and \<open>den\<close> positive.\<close>

definition floor_log2 :: "nat \<Rightarrow> nat \<Rightarrow> int" where
  "floor_log2 num den =
     (let d = int (bit_length num) - int (bit_length den)
      in if den * 2 ^ nat d \<le> num * 2 ^ nat (- d) then d else d - 1)"

text \<open>The integer nearest to \<open>a / b\<close>; of two equally near, the even one.\<close>

definition round_half_even :: "nat \<Rightarrow> nat \<Rightarrow> nat" where
  "round_half_even a b =
     (let f = a div b; r = a mod b
      in if 2 * r < b then f else if b < 2 * r then f + 1 else if even f then f else f + 1)"

text \<open>
  The double nearest to \<open>num / den\<close> (round to nearest, ties to even): 53 bits of
  mantissa, the least exponent \<open>- 1074\<close>, and infinity from \<open>2 ^ 1024\<close> on.
\<close>

definition toDouble :: "nat \<Rightarrow> nat \<Rightarrow> number" where
  "toDouble num den =
     (if num = 0 then Finite 0
      else
        let p = max (floor_log2 num den - 52) (- 1074);
            m = round_half_even (num * 2 ^ nat (- p)) (den * 2 ^ nat p)
        in if 2 ^ 1024 \<le> m * 2 ^ nat p then PosInfinity
           else Finite (of_nat m * 2 powi p))"

definition negate :: "number \<Rightarrow> number" where
  "negate x =
     (case x of NaN \<Rightarrow> NaN | PosInfinity \<Rightarrow> NegInfinity | NegInfinity \<Rightarrow> PosInfinity
      | Finite q \<Rightarrow> Finite (- q))"

subsection \<open>\<^verbatim>\<open>Number(string)\<close>\<close>

text \<open>
  The white space and line terminators that \<^verbatim>\<open>Number\<close> strips from both ends of the
  string, each as the bytes of its UTF-8 encoding: TAB, VT, FF, SP, LF, CR, U+00A0,
  U+1680, U+2000 to U+200A, U+2028, U+2029, U+202F, U+205F, U+3000 and U+FEFF.
\<close>

definition strWhiteSpaceChar :: "string list" where
  "strWhiteSpaceChar =
     [[CHR 0x09], [CHR 0x0B], [CHR 0x0C], [CHR 0x20], [CHR 0x0A], [CHR 0x0D],
      [CHR 0xC2, CHR 0xA0], [CHR 0xE1, CHR 0x9A, CHR 0x80]] @
     map (\<lambda>c. [CHR 0xE2, CHR 0x80, c])
       [CHR 0x80, CHR 0x81, CHR 0x82, CHR 0x83, CHR 0x84, CHR 0x85, CHR 0x86, CHR 0x87,
        CHR 0x88, CHR 0x89, CHR 0x8A, CHR 0xA8, CHR 0xA9, CHR 0xAF] @
     [[CHR 0xE2, CHR 0x81, CHR 0x9F], [CHR 0xE3, CHR 0x80, CHR 0x80],
      [CHR 0xEF, CHR 0xBB, CHR 0xBF]]"

function strip_leading :: "string list \<Rightarrow> string \<Rightarrow> string" where
  "strip_leading ws s =
     (case find (\<lambda>w. w \<noteq> [] \<and> prefix w s) ws of
        None \<Rightarrow> s
      | Some w \<Rightarrow> strip_leading ws (drop (length w) s))"
  by pat_completeness auto
termination
proof (relation "measure (\<lambda>(ws, s). length s)")
  show "wf (measure (\<lambda>(ws, s). length s))" by simp
next
  fix ws :: "string list" and s w :: string
  assume "find (\<lambda>w. w \<noteq> [] \<and> prefix w s) ws = Some w"
  then have "w \<noteq> []" and "prefix w s" by (auto simp: find_Some_iff)
  then have "s \<noteq> []" by auto
  with \<open>w \<noteq> []\<close> show "((ws, drop (length w) s), (ws, s)) \<in> measure (\<lambda>(ws, s). length s)"
    by simp
qed

declare strip_leading.simps [simp del]

definition trim :: "string \<Rightarrow> string" where
  "trim s =
     rev (strip_leading (map rev strWhiteSpaceChar)
            (rev (strip_leading strWhiteSpaceChar s)))"

definition isDecimalDigit :: "char \<Rightarrow> bool" where
  "isDecimalDigit c = (let n = (of_char c :: nat) in 48 \<le> n \<and> n \<le> 57)"

text \<open>The value of a digit in a base up to 16; \<open>None\<close> for any other character.\<close>

definition digit_value :: "char \<Rightarrow> nat option" where
  "digit_value c =
     (let n = (of_char c :: nat)
      in if 48 \<le> n \<and> n \<le> 57 then Some (n - 48)
         else if 97 \<le> n \<and> n \<le> 102 then Some (n - 87)
         else if 65 \<le> n \<and> n \<le> 70 then Some (n - 55)
         else None)"

definition is_digit_of :: "nat \<Rightarrow> char \<Rightarrow> bool" where
  "is_digit_of base c = (case digit_value c of None \<Rightarrow> False | Some d \<Rightarrow> d < base)"

definition digits_value :: "nat \<Rightarrow> string \<Rightarrow> nat" where
  "digits_value base ds =
     foldl (\<lambda>n c. base * n + (case digit_value c of None \<Rightarrow> 0 | Some d \<Rightarrow> d)) 0 ds"

text \<open>
  \<^verbatim>\<open>0x\<close>, \<^verbatim>\<open>0o\<close> and \<^verbatim>\<open>0b\<close> literals (the letter in either case), which take
  no sign.
\<close>

definition nonDecimalIntegerLiteral :: "string \<Rightarrow> nat option" where
  "nonDecimalIntegerLiteral s =
     (let base =
        (if take 2 s = ''0x'' \<or> take 2 s = ''0X'' then 16
         else if take 2 s = ''0o'' \<or> take 2 s = ''0O'' then 8
         else if take 2 s = ''0b'' \<or> take 2 s = ''0B'' then 2
         else 0);
          ds = drop 2 s
      in if base \<noteq> 0 \<and> ds \<noteq> [] \<and> list_all (is_digit_of base) ds
         then Some (digits_value base ds) else None)"

text \<open>The exponent part: nothing, or \<^verbatim>\<open>e\<close>, an optional sign and digits.\<close>

definition exponentPart :: "string \<Rightarrow> int option" where
  "exponentPart r =
     (case r of
        [] \<Rightarrow> Some 0
      | c # t \<Rightarrow>
          if c = CHR ''e'' \<or> c = CHR ''E'' then
            (let neg = (take 1 t = ''-'');
                 ds = (if take 1 t = ''+'' \<or> take 1 t = ''-'' then drop 1 t else t)
             in if ds \<noteq> [] \<and> list_all isDecimalDigit ds
                then Some ((if neg then - 1 else 1) * int (digits_value 10 ds))
                else None)
          else None)"

text \<open>
  An unsigned decimal literal as a mantissa and a power of ten: digits, an optional point
  and digits (one of the two runs of digits may be empty, not both), an exponent part.
\<close>

definition unsignedDecimalLiteral :: "string \<Rightarrow> (nat \<times> int) option" where
  "unsignedDecimalLiteral s =
     (let ip = takeWhile isDecimalDigit s;
          r1 = dropWhile isDecimalDigit s;
          point = (take 1 r1 = ''.'');
          fp = (if point then takeWhile isDecimalDigit (drop 1 r1) else []);
          r2 = (if point then dropWhile isDecimalDigit (drop 1 r1) else r1)
      in if ip = [] \<and> fp = [] then None
         else
           (case exponentPart r2 of
              None \<Rightarrow> None
            | Some ex \<Rightarrow> Some (digits_value 10 (ip @ fp), ex - int (length fp))))"

definition strDecimalLiteral :: "string \<Rightarrow> number" where
  "strDecimalLiteral s =
     (let neg = (take 1 s = ''-'');
          u = (if take 1 s = ''+'' \<or> take 1 s = ''-'' then drop 1 s else s);
          x =
            (if u = ''Infinity'' then PosInfinity
             else
               (case unsignedDecimalLiteral u of
                  None \<Rightarrow> NaN
                | Some (m, ex) \<Rightarrow>
                    if 0 \<le> ex then toDouble (m * 10 ^ nat ex) 1
                    else toDouble m (10 ^ nat (- ex))))
      in if neg then negate x else x)"

text \<open>
  \<^verbatim>\<open>Number(s)\<close> for a string \<open>s\<close>: the empty string (after trimming) is zero,
  a numeric literal is its value rounded to a double, anything else is \<open>NaN\<close>.
\<close>

definition Number :: "string \<Rightarrow> number" where
  "Number s =
     (let t = trim s
      in if t = [] then Finite 0
         else
           (case nonDecimalIntegerLiteral t of
              Some n \<Rightarrow> toDouble n 1
            | None \<Rightarrow> strDecimalLiteral t))"

subsection \<open>\<^verbatim>\<open>Number.prototype.toFixed\<close>\<close>

definition digit_char :: "nat \<Rightarrow> char" where
  "digit_char d = ''0123456789'' ! d"

text \<open>The decimal digits of a natural number, without leading zeros (\<open>0\<close> is \<open>''0''\<close>).\<close>

fun decimal :: "nat \<Rightarrow> string" where
  "decimal n = (if n < 10 then [digit_char n] else decimal (n div 10) @ [digit_char (n mod 10)])"

declare decimal.simps [simp del]

text \<open>
  \<^verbatim>\<open>Number::toString\<close> of a finite double \<open>x\<close> from \<open>10 ^ 21\<close> on (an integer): the digits
  of the least number \<open>k\<close> of significant digits whose value \<open>s * 10 ^ (n - k)\<close> rounds to
  \<open>x\<close> (of two such \<open>s\<close>, the nearer to \<open>x\<close>), in exponential notation. \<open>candidates\<close> lists
  for a \<open>k\<close> the pairs \<open>(s, n)\<close> with \<open>10 ^ (k - 1) \<le> s < 10 ^ k\<close> nearest to \<open>x\<close> from
  below and from above.
\<close>

definition candidates :: "nat \<Rightarrow> nat \<Rightarrow> (nat \<times> nat) list" where
  "candidates x k =
     (let nd = length (decimal x);
          lo = x div 10 ^ (nd - k);
          hi = lo + 1
      in [(lo, nd), if hi < 10 ^ k then (hi, nd) else (10 ^ (k - 1), nd + 1)])"

definition rounds_to :: "nat \<Rightarrow> nat \<Rightarrow> nat \<times> nat \<Rightarrow> bool" where
  "rounds_to x k c = (case c of (s, n) \<Rightarrow> toDouble (s * 10 ^ (n - k)) 1 = Finite (of_nat x))"

definition nearest :: "nat \<Rightarrow> nat \<Rightarrow> (nat \<times> nat) list \<Rightarrow> (nat \<times> nat) option" where
  "nearest x k cs =
     (case filter (rounds_to x k) cs of
        [] \<Rightarrow> None
      | [c] \<Rightarrow> Some c
      | c # c' # _ \<Rightarrow>
          (case (c, c') of
             ((s, n), (s', n')) \<Rightarrow>
               if int (s' * 10 ^ (n' - k)) - int x < int x - int (s * 10 ^ (n - k))
               then Some c' else Some c))"

text \<open>The numbers of digits are tried from \<open>k\<close> on, \<open>fuel\<close> of them.\<close>

fun shortest_from :: "nat \<Rightarrow> nat \<Rightarrow> nat \<Rightarrow> (nat \<times> nat \<times> nat) option" where
  "shortest_from x k 0 = None"
| "shortest_from x k (Suc fuel) =
     (case nearest x k (candidates x k) of
        Some (s, n) \<Rightarrow> Some (k, s, n)
      | None \<Rightarrow> shortest_from x (Suc k) fuel)"

text \<open>Seventeen significant digits tell any double from its neighbours.\<close>

definition shortest :: "nat \<Rightarrow> (nat \<times> nat \<times> nat) option" where
  "shortest x = shortest_from x 1 17"

definition numberToString_large :: "nat \<Rightarrow> string" where
  "numberToString_large x =
     (case shortest x of
        None \<Rightarrow> decimal x
      | Some (k, s, n) \<Rightarrow>
          (let ds = decimal s
           in (if k = 1 then ds else take 1 ds @ ''.'' @ drop 1 ds) @ ''e+'' @ decimal (n - 1)))"

text \<open>
  \<^verbatim>\<open>x.toFixed(f)\<close> for \<open>f\<close> from 0 to 100. A value that is not finite is returned by name;
  a finite one of magnitude \<open>10 ^ 21\<close> or more in the notation of \<^verbatim>\<open>Number::toString\<close>;
  below that, \<open>n\<close> is the integer nearest to \<open>x * 10 ^ f\<close> (the larger of two equally
  near) and the result is its digits with a point before the last \<open>f\<close> of them.
\<close>

definition toFixed :: "nat \<Rightarrow> number \<Rightarrow> string" where
  "toFixed f x =
     (case x of
        NaN \<Rightarrow> ''NaN''
      | PosInfinity \<Rightarrow> ''Infinity''
      | NegInfinity \<Rightarrow> ''-Infinity''
      | Finite q \<Rightarrow>
          (let s = (if q < 0 then ''-'' else '''');
               a = \<bar>q\<bar>
           in if 10 ^ 21 \<le> a then s @ numberToString_large (nat \<lfloor>a\<rfloor>)
              else
                (let n = nat \<lfloor>a * 10 ^ f + 1 / 2\<rfloor>;
                     m = decimal n;
                     m = (if f \<noteq> 0 \<and> length m \<le> f
                          then replicate (f + 1 - length m) CHR ''0'' @ m else m);
                     k = length m
                 in s @ (if f \<noteq> 0 then take (k - f) m @ ''.'' @ drop (k - f) m else m))))"


section \<open>The formatter\<close>

subsection \<open>\<^verbatim>\<open>Object.entries\<close>\<close>

text \<open>
  A key is an array index when it is the canonical decimal form of an integer from 0 to
  \<open>2 ^ 32 - 2\<close>.
\<close>

definition isArrayIndex :: "string \<Rightarrow> bool" where
  "isArrayIndex k \<longleftrightarrow>
     k \<noteq> [] \<and> list_all isDecimalDigit k \<and> (k = ''0'' \<or> take 1 k \<noteq> ''0'') \<and>
     digits_value 10 k < 2 ^ 32 - 1"

text \<open>
  \<^verbatim>\<open>Object.entries(obj)\<close>: the properties whose key is an array index come first, in
  ascending order of the index; the others follow in the order of their creation.
\<close>

definition Object_entries :: "'a js_object \<Rightarrow> (string \<times> 'a) list" where
  "Object_entries obj =
     sort_key (\<lambda>p. digits_value 10 (fst p)) (filter (\<lambda>p. isArrayIndex (fst p)) obj) @
     filter (\<lambda>p. \<not> isArrayIndex (fst p)) obj"

subsection \<open>\<^verbatim>\<open>Array.prototype.sort\<close> with a comparison function\<close>

text \<open>
  The difference \<open>x - y\<close> of two numbers. The sort reads only the sign of the difference,
  and rounding the difference of two finite doubles keeps its sign, so the exact
  difference stands for the rounded one.
\<close>

fun minus_number :: "number \<Rightarrow> number \<Rightarrow> number" where
  "minus_number NaN y = NaN"
| "minus_number x NaN = NaN"
| "minus_number PosInfinity PosInfinity = NaN"
| "minus_number NegInfinity NegInfinity = NaN"
| "minus_number PosInfinity y = PosInfinity"
| "minus_number NegInfinity y = NegInfinity"
| "minus_number (Finite x) PosInfinity = NegInfinity"
| "minus_number (Finite x) NegInfinity = PosInfinity"
| "minus_number (Finite x) (Finite y) = Finite (x - y)"

text \<open>
  The sort moves \<open>x\<close> behind \<open>y\<close> only when the comparison function returns a number
  greater than zero for \<open>(x, y)\<close>; it reads \<open>NaN\<close> as zero.
\<close>

fun is_positive :: "number \<Rightarrow> bool" where
  "is_positive PosInfinity = True"
| "is_positive (Finite q) = (0 < q)"
| "is_positive NaN = False"
| "is_positive NegInfinity = False"

text \<open>
  The stable sort by a comparison function, as an insertion sort: each element, taken
  from the right, is put before the first element it need not follow.
\<close>

fun insert_sorted :: "('a \<Rightarrow> 'a \<Rightarrow> number) \<Rightarrow> 'a \<Rightarrow> 'a list \<Rightarrow> 'a list" where
  "insert_sorted comparefn x [] = [x]"
| "insert_sorted comparefn x (y # ys) =
     (if is_positive (comparefn x y) then y # insert_sorted comparefn x ys else x # y # ys)"

definition stable_sort :: "('a \<Rightarrow> 'a \<Rightarrow> number) \<Rightarrow> 'a list \<Rightarrow> 'a list" where
  "stable_sort comparefn xs = foldr (insert_sorted comparefn) xs []"




text \<open>
  \<^verbatim>\<open>Array.prototype.sort\<close> is the engine's. The standard fixes what it returns only for
  a consistent comparison function: the stable sort. For any other the order is left to
  the implementation, and all that is known is that the elements are the same. So the
  sort is a parameter of the model, and \<open>sort_conforms\<close> says what the standard asks of
  it.
\<close>

type_synonym 'a sort_impl = "('a \<Rightarrow> 'a \<Rightarrow> number) \<Rightarrow> 'a list \<Rightarrow> 'a list"


text \<open>\<^verbatim>\<open>Array.prototype.findIndex\<close>: the index of the first match, or \<open>- 1\<close>.\<close>

fun findIndex :: "('a \<Rightarrow> bool) \<Rightarrow> 'a list \<Rightarrow> int" where
  "findIndex P [] = - 1"
| "findIndex P (x # xs) =
     (if P x then 0 else (let i = findIndex P xs in if i = - 1 then - 1 else i + 1))"

text \<open>\<^verbatim>\<open>Array.prototype.join\<close>\<close>

fun join :: "string \<Rightarrow> string list \<Rightarrow> string" where
  "join sep [] = []"
| "join sep [x] = x"
| "join sep (x # y # ys) = x @ sep @ join sep (y # ys)"

subsection \<open>\<^verbatim>\<open>formatPortfolioBalancesResponse\<close>\<close>

definition NL :: string where
  "NL = [CHR 0x0A]"

text \<open>A line of a section: \<^verbatim>\<open>`${name}: $${Number(value).toFixed(2)}`\<close>\<close>

definition line :: "string \<Rightarrow> string \<Rightarrow> string" where
  "line name v = name @ '': $'' @ toFixed 2 (Number v)"

definition networthPerChain :: "OctavPortfolioBalance \<Rightarrow> string" where
  "networthPerChain portfolioBalances =
     join NL
       (map (\<lambda>(chainKey, chain). line (chain_name chain) (chain_value chain))
          (Object_entries (chains portfolioBalances)))"

definition totalNetworthFormatted :: "OctavPortfolioBalance \<Rightarrow> string" where
  "totalNetworthFormatted portfolioBalances = toFixed 2 (Number (networth portfolioBalances))"

text \<open>The \<^verbatim>\<open>{ name, value }\<close> objects the protocols are reduced to.\<close>

record NetworthEntry =
  entry_name :: string
  entry_value :: string

text \<open>\<^verbatim>\<open>(a, b) => Number(b.value) - Number(a.value)\<close>\<close>

definition by_value_descending :: "NetworthEntry \<Rightarrow> NetworthEntry \<Rightarrow> number" where
  "by_value_descending a b = minus_number (Number (entry_value b)) (Number (entry_value a))"

definition protocolEntries :: "OctavPortfolioBalance \<Rightarrow> NetworthEntry list" where
  "protocolEntries portfolioBalances =
     map (\<lambda>(protocolKey, protocol).
            \<lparr>entry_name = protocol_name protocol, entry_value = protocol_value protocol\<rparr>)
       (Object_entries (assetByProtocols portfolioBalances))"

definition sortedProtocols ::
  "NetworthEntry sort_impl \<Rightarrow> OctavPortfolioBalance \<Rightarrow> NetworthEntry list"
where
  "sortedProtocols Array_sort portfolioBalances =
     Array_sort by_value_descending (protocolEntries portfolioBalances)"

text \<open>
  The list after the Wallet step: \<^verbatim>\<open>splice(walletIndex, 1)\<close> takes the element out,
  \<^verbatim>\<open>unshift\<close> puts it in front.
\<close>

definition networthPerProtocol ::
  "NetworthEntry sort_impl \<Rightarrow> OctavPortfolioBalance \<Rightarrow> NetworthEntry list"
where
  "networthPerProtocol Array_sort portfolioBalances =
     (let sorted = sortedProtocols Array_sort portfolioBalances;
          walletIndex = findIndex (\<lambda>p. entry_name p = ''Wallet'') sorted
      in if walletIndex > - 1 then
           (let wallet = sorted ! nat walletIndex;
                spliced = take (nat walletIndex) sorted @ drop (nat walletIndex + 1) sorted
            in wallet # spliced)
         else sorted)"

definition networthProtocolStr ::
  "NetworthEntry sort_impl \<Rightarrow> OctavPortfolioBalance \<Rightarrow> string"
where
  "networthProtocolStr Array_sort portfolioBalances =
     join NL
       (map (\<lambda>protocol. line (entry_name protocol) (entry_value protocol))
          (networthPerProtocol Array_sort portfolioBalances))"

text \<open>The characters of the banner outside ASCII, as the bytes the source file holds.\<close>

definition chart :: string where
  "chart =
     [CHR 0xC3, CHR 0xB0, CHR 0xC5, CHR 0xB8, CHR 0xE2, CHR 0x80, CHR 0x9C, CHR 0xCB, CHR 0x86]"

text \<open>The two sections: the joined lines, or the placeholder when they are the empty string.\<close>

definition chainSection :: "OctavPortfolioBalance \<Rightarrow> string" where
  "chainSection portfolioBalances =
     (if networthPerChain portfolioBalances \<noteq> [] then networthPerChain portfolioBalances
      else ''No data available for chains.'')"

definition protocolSection ::
  "NetworthEntry sort_impl \<Rightarrow> OctavPortfolioBalance \<Rightarrow> string"
where
  "protocolSection Array_sort portfolioBalances =
     (if networthProtocolStr Array_sort portfolioBalances \<noteq> []
      then networthProtocolStr Array_sort portfolioBalances
      else ''No data available for protocols.'')"

definition formatPortfolioBalancesResponse ::
  "NetworthEntry sort_impl \<Rightarrow> OctavPortfolioBalance \<Rightarrow> string"
where
  "formatPortfolioBalancesResponse Array_sort portfolioBalances =
     ''=== '' @ chart @ '' Portfolio Balances (in USD) '' @ chart @ '' ==='' @ NL @
     NL @
     ''Address: '' @ address portfolioBalances @ NL @
     ''Total Networth: $'' @ totalNetworthFormatted portfolioBalances @ NL @
     ''    '' @ NL @
     ''Networth per Chain:'' @ NL @
     ''-----------------------------'' @ NL @
     chainSection portfolioBalances @ NL @
     ''    '' @ NL @
     ''Networth per Protocol:'' @ NL @
     ''-----------------------------'' @ NL @
     protocolSection Array_sort portfolioBalances @ NL @
     NL @
     ''=============================''"


section \<open>The host\<close>

text \<open>
  What a \<^verbatim>\<open>throw\<close> or a rejected promise carries. \<open>ErrorInstance m\<close> is an instance
  of \<^verbatim>\<open>Error\<close> with the message \<open>m\<close>. \<open>OtherThrown\<close> is any other value, with what
  the \<^verbatim>\<open>catch\<close> blocks observe of it: whether \<^verbatim>\<open>error?.toString()\<close> returns
  (it does for \<^verbatim>\<open>null\<close> and \<^verbatim>\<open>undefined\<close>; it throws for an object with no
  callable \<^verbatim>\<open>toString\<close>), the string \<^verbatim>\<open>String(error)\<close> gives (\<open>None\<close> when it
  throws), and whether \<^verbatim>\<open>JSON.stringify(error)\<close> returns. On an instance of
  \<^verbatim>\<open>Error\<close> the three are taken to return.
\<close>

datatype thrown =
    ErrorInstance string
  | OtherThrown (toString_returns: bool) (String_of: "string option") (stringify_returns: bool)

text \<open>
  The request \<^verbatim>\<open>fetch\<close> is called with, and the part of its response the provider
  reads. The body is taken at the type the source asserts for it, an array of
  \<^verbatim>\<open>OctavPortfolioBalance\<close>; \<^verbatim>\<open>json()\<close> may reject instead.
\<close>

record request =
  req_url :: string
  req_method :: string
  req_authorization :: string

record response =
  resp_ok :: bool
  resp_statusText :: string
  resp_json :: "thrown + OctavPortfolioBalance list"

text \<open>
  What the plugin takes from its environment: \<^verbatim>\<open>process.env.OCTAV_API_KEY\<close>, the
  network behind \<^verbatim>\<open>fetch\<close> (which may reject), the message of the \<^verbatim>\<open>TypeError\<close>
  the engine raises on the named operation (reading a property of \<^verbatim>\<open>undefined\<close>,
  calling what is no function, converting what has no string), \<^verbatim>\<open>Date.now()\<close>, and
  the engine's \<^verbatim>\<open>Array.prototype.sort\<close>.
\<close>

record host =
  OCTAV_API_KEY :: "string option"
  fetch :: "request \<Rightarrow> thrown + response"
  typeError :: "string \<Rightarrow> string"
  now :: int
  engine_sort :: "NetworthEntry sort_impl"

text \<open>
  The values the results are built of. A result is an object literal: the list of its
  properties, a property that is not written being absent.
\<close>

datatype jsval =
    JUndefined
  | JBoolean bool
  | JString string
  | JNumber int
  | JError string
  | JPortfolio OctavPortfolioBalance
  | JObject "(string \<times> jsval) list"

type_synonym js_result = "(string \<times> jsval) list"



section \<open>The provider\<close>

definition OCTAV_API_URL :: string where
  "OCTAV_API_URL = ''https://backend-dev-api.octav.fi''"

text \<open>
  The body of the \<^verbatim>\<open>try\<close> block of \<^verbatim>\<open>octavProvider.get\<close>: what it throws or
  returns, and the requests it has sent.
\<close>

definition get_try :: "host \<Rightarrow> Memory \<Rightarrow> (thrown + js_result) \<times> request list" where
  "get_try h message =
     (if OCTAV_API_KEY h = None \<or> OCTAV_API_KEY h = Some []
      then (Inl (ErrorInstance ''Octav API not found''), [])
      else
        (case content message of
           None \<Rightarrow> (Inl (ErrorInstance (typeError h ''text'')), [])
         | Some c \<Rightarrow>
             (case content_text c of
                None \<Rightarrow> (Inl (ErrorInstance (typeError h ''match'')), [])
              | Some text \<Rightarrow>
                  (case match_address text of
                     None \<Rightarrow>
                       (Inl (ErrorInstance ''Valid ethereum address not found in message''), [])
                   | Some addr \<Rightarrow>
                       (let url = OCTAV_API_URL @ ''/v1/portfolio?'' @ ''addresses='' @ addr;
                            req = \<lparr>req_url = url, req_method = ''GET'',
                                   req_authorization =
                                     ''Bearer '' @ (case OCTAV_API_KEY h of
                                                     None \<Rightarrow> [] | Some k \<Rightarrow> k)\<rparr>
                        in case fetch h req of
                             Inl e \<Rightarrow> (Inl e, [req])
                           | Inr responseRaw \<Rightarrow>
                               if \<not> resp_ok responseRaw then
                                 (Inl (ErrorInstance
                                    (''Failed to fetch portfolio balances for '' @ addr @
                                     '': '' @ resp_statusText responseRaw)), [req])
                               else
                                 (case resp_json responseRaw of
                                    Inl e \<Rightarrow> (Inl e, [req])
                                  | Inr data \<Rightarrow>
                                      (Inr [(''data'',
                                             case data of
                                               [] \<Rightarrow> JUndefined
                                             | d # _ \<Rightarrow> JPortfolio d)], [req])))))))"

text \<open>
  \<^verbatim>\<open>octavProvider.get\<close>: the \<^verbatim>\<open>try\<close> block, and the \<^verbatim>\<open>catch\<close> block. The
  \<^verbatim>\<open>catch\<close> block first evaluates \<^verbatim>\<open>error?.toString()\<close> for the log; when that
  throws, the \<^verbatim>\<open>TypeError\<close> leaves the function and the promise of \<^verbatim>\<open>get\<close> is
  rejected. Otherwise it returns a result with a \<^verbatim>\<open>text\<close>. The logger itself is
  taken to return.
\<close>

definition provider_get :: "host \<Rightarrow> Memory \<Rightarrow> (thrown + js_result) \<times> request list" where
  "provider_get h message =
     (case get_try h message of
        (Inr r, sent) \<Rightarrow> (Inr r, sent)
      | (Inl error, sent) \<Rightarrow>
          (case error of
             ErrorInstance m \<Rightarrow> (Inr [(''text'', JString m)], sent)
           | OtherThrown toString_ok s json_ok \<Rightarrow>
               if \<not> toString_ok then (Inl (ErrorInstance (typeError h ''toString'')), sent)
               else
                 (Inr [(''text'', JString ''Failed to fetch portfolio balances from Octav'')],
                  sent)))"

section \<open>The action's handler\<close>








section \<open>The formatter on a heap\<close>

text \<open>
  The formatter sorts, splices and unshifts an array in place. To say what a second call
  finds, the formatter is written once more with the objects it is given and the array
  it changes kept in a heap: the portfolios by their reference, the arrays of
  \<^verbatim>\<open>{name, value}\<close> objects by theirs, and the next free reference for an array.
\<close>

record heap =
  portfolios :: "nat \<Rightarrow> OctavPortfolioBalance"
  arrays :: "nat \<Rightarrow> NetworthEntry list"
  next_array :: nat

text \<open>A new array (what \<^verbatim>\<open>map\<close> returns) takes the next free reference.\<close>

definition new_array :: "NetworthEntry list \<Rightarrow> heap \<Rightarrow> nat \<times> heap" where
  "new_array xs h =
     (next_array h, h\<lparr>arrays := (arrays h)(next_array h := xs), next_array := Suc (next_array h)\<rparr>)"

text \<open>\<^verbatim>\<open>sort\<close>, \<^verbatim>\<open>splice(i, 1)\<close> and \<^verbatim>\<open>unshift\<close> write to the array they are called on.\<close>

definition sort_in_place ::
  "NetworthEntry sort_impl \<Rightarrow> (NetworthEntry \<Rightarrow> NetworthEntry \<Rightarrow> number) \<Rightarrow> nat \<Rightarrow> heap \<Rightarrow> heap"
where
  "sort_in_place Array_sort comparefn a h =
     h\<lparr>arrays := (arrays h)(a := Array_sort comparefn (arrays h a))\<rparr>"

definition splice_one :: "nat \<Rightarrow> nat \<Rightarrow> heap \<Rightarrow> NetworthEntry \<times> heap" where
  "splice_one a i h =
     (arrays h a ! i, h\<lparr>arrays := (arrays h)(a := take i (arrays h a) @ drop (i + 1) (arrays h a))\<rparr>)"

definition unshift :: "nat \<Rightarrow> NetworthEntry \<Rightarrow> heap \<Rightarrow> heap" where
  "unshift a x h = h\<lparr>arrays := (arrays h)(a := x # arrays h a)\<rparr>"

text \<open>
  \<^verbatim>\<open>formatPortfolioBalancesResponse\<close> called with the reference of a portfolio: the text
  it returns and the heap it leaves.
\<close>

definition formatPortfolioBalancesResponse_heap ::
  "NetworthEntry sort_impl \<Rightarrow> nat \<Rightarrow> heap \<Rightarrow> string \<times> heap"
where
  "formatPortfolioBalancesResponse_heap Array_sort ref h0 =
     (let portfolioBalances = portfolios h0 ref;
          (networthPerProtocol, h1) = new_array (protocolEntries portfolioBalances) h0;
          h2 = sort_in_place Array_sort by_value_descending networthPerProtocol h1;
          walletIndex = findIndex (\<lambda>p. entry_name p = ''Wallet'') (arrays h2 networthPerProtocol);
          h3 = (if walletIndex > - 1 then
                  (let (wallet, h) = splice_one networthPerProtocol (nat walletIndex) h2
                   in unshift networthPerProtocol wallet h)
                else h2);
          networthProtocolStr =
            join NL
              (map (\<lambda>protocol. line (entry_name protocol) (entry_value protocol))
                 (arrays h3 networthPerProtocol))
      in (''=== '' @ chart @ '' Portfolio Balances (in USD) '' @ chart @ '' ==='' @ NL @
          NL @
          ''Address: '' @ address portfolioBalances @ NL @
          ''Total Networth: $'' @ totalNetworthFormatted portfolioBalances @ NL @
          ''    '' @ NL @
          ''Networth per Chain:'' @ NL @
          ''-----------------------------'' @ NL @
          chainSection portfolioBalances @ NL @
          ''    '' @ NL @
          ''Networth per Protocol:'' @ NL @
          ''-----------------------------'' @ NL @
          (if networthProtocolStr \<noteq> [] then networthProtocolStr
           else ''No data available for protocols.'') @ NL @
          NL @
          ''============================='',
          h3))"

section \<open>Example inputs\<close>

definition no_key_host :: host where
  "no_key_host =
     \<lparr>OCTAV_API_KEY = None,
      fetch = (\<lambda>req. Inl (ErrorInstance ''fetch failed'')),
      typeError = (\<lambda>p. ''Cannot read properties of undefined''),
      now = 0,
      engine_sort = stable_sort\<rparr>"


definition example_message :: Memory where
  "example_message =
     \<lparr>content = Some \<lparr>content_text =
        Some ''Can you fetch portfolio balances of 0xEF7F2e81EA14538858d962df34eB1bFDa83da395''\<rparr>\<rparr>"

definition unauthorized :: response where
  "unauthorized =
     \<lparr>resp_ok = False, resp_statusText = ''Unauthorized'',
      resp_json = Inl (ErrorInstance ''Unexpected end of JSON input'')\<rparr>"

definition refusing_host :: host where
  "refusing_host =
     \<lparr>OCTAV_API_KEY = Some ''secret'',
      fetch = (\<lambda>req. Inr unauthorized),
      typeError = (\<lambda>p. ''Cannot read properties of undefined''),
      now = 0,
      engine_sort = stable_sort\<rparr>"


text \<open>Chains, protocols and portfolios with the fields the formatter does not read left empty.\<close>

definition a_chain :: "string \<Rightarrow> string \<Rightarrow> string \<Rightarrow> Chain" where
  "a_chain key name v =
     \<lparr>chain_name = name, chain_key = key, chain_value = v, chain_totalCostBasis = [],
      chain_totalClosedPnl = [], chain_totalOpenPnl = []\<rparr>"

definition a_protocol :: "string \<Rightarrow> string \<Rightarrow> string \<Rightarrow> Protocol" where
  "a_protocol key name v =
     \<lparr>protocol_name = name, protocol_key = key, protocol_value = v,
      protocol_totalCostBasis = [], protocol_totalClosedPnl = [], protocol_totalOpenPnl = [],
      protocol_chains = []\<rparr>"

text \<open>A portfolio worth \<open>10 ^ 21\<close>.\<close>

definition huge_portfolio :: OctavPortfolioBalance where
  "huge_portfolio =
     \<lparr>address = ''0xEF7F2e81EA14538858d962df34eB1bFDa83da395'',
      networth = ''1000000000000000000000'',
      assetByProtocols = [],
      chains = []\<rparr>"

text \<open>
  A portfolio whose chains were created in the order \<^verbatim>\<open>eth\<close>, \<^verbatim>\<open>1\<close>, and whose
  protocols are the \<^verbatim>\<open>{A: 10, Wallet: 1, B: 100}\<close> of the specification.
\<close>

definition example_portfolio :: OctavPortfolioBalance where
  "example_portfolio =
     \<lparr>address = ''0xEF7F2e81EA14538858d962df34eB1bFDa83da395'',
      networth = ''1234.5'',
      assetByProtocols =
        [(''A'', a_protocol ''A'' ''A'' ''10''),
         (''Wallet'', a_protocol ''Wallet'' ''Wallet'' ''1''),
         (''B'', a_protocol ''B'' ''B'' ''100'')],
      chains =
        [(''eth'', a_chain ''eth'' ''Ethereum'' ''1''),
         (''1'', a_chain ''1'' ''One'' ''2'')]\<rparr>"

text \<open>A heap that holds the example portfolio at every reference, and no array yet.\<close>

definition example_heap :: heap where
  "example_heap = \<lparr>portfolios = (\<lambda>ref. example_portfolio), arrays = (\<lambda>a. []), next_array = 0\<rparr>"

chapter \<open>Properties\<close>

section \<open>The action's validate\<close>

lemma includes_iff: "str_includes s k \<longleftrightarrow> (\<exists>pre post. s = pre @ k @ post)"
proof (induction s)
  case Nil
  then show ?case by auto
next
  case (Cons c cs)
  show ?case
  proof
    assume "str_includes (c # cs) k"
    then consider "prefix k (c # cs)" | "str_includes cs k" by auto
    then show "\<exists>pre post. c # cs = pre @ k @ post"
    proof cases
      case 1
      then obtain post where "c # cs = k @ post" by (auto simp: prefix_def)
      then have "c # cs = [] @ k @ post" by simp
      then show ?thesis by blast
    next
      case 2
      with Cons.IH obtain pre post where "cs = pre @ k @ post" by blast
      then have "c # cs = (c # pre) @ k @ post" by simp
      then show ?thesis by blast
    qed
  next
    assume "\<exists>pre post. c # cs = pre @ k @ post"
    then obtain pre post where eq: "c # cs = pre @ k @ post" by blast
    show "str_includes (c # cs) k"
    proof (cases pre)
      case Nil
      with eq have "prefix k (c # cs)" by (simp add: prefix_def)
      then show ?thesis by simp
    next
      case (Cons p ps)
      with eq have "cs = ps @ k @ post" by simp
      with Cons.IH have "str_includes cs k" by blast
      then show ?thesis by simp
    qed
  qed
qed

lemma list_ex_str_includes:
  "list_ex (\<lambda>keyword. str_includes s keyword) ks \<longleftrightarrow>
     (\<exists>keyword pre post. keyword \<in> set ks \<and> s = pre @ keyword @ post)"
  unfolding list_ex_iff includes_iff by blast

lemma keywords_set:
  "set fetchPortfolioBalancesKeyword =
     {''fetch portfolio'', ''get portfolio'', ''list portfolio balances'', ''portfolio'',
      ''display portfolio balances''}"
  unfolding fetchPortfolioBalancesKeyword_def by (simp only: list.set)

lemma keywords_nonempty: "[] \<notin> set fetchPortfolioBalancesKeyword"
  unfolding fetchPortfolioBalancesKeyword_def by simp

lemma validate_empty:
  "validate_content message = [] \<Longrightarrow> \<not> validate message"
  unfolding validate_def Let_def list_ex_str_includes
  using keywords_nonempty by auto

lemma validate_text:
  "content message = Some c \<Longrightarrow> content_text c = Some t \<Longrightarrow>
   validate message \<longleftrightarrow>
     (\<exists>keyword pre post. keyword \<in> set fetchPortfolioBalancesKeyword \<and>
        toLowerCase t = pre @ keyword @ post)"
  unfolding validate_def Let_def list_ex_str_includes
  by (simp add: validate_content_def)

text \<open>
  C8. validate returns true exactly when the message has a text whose lower-cased form
  contains one of the five keyword phrases as a substring; a message with no content or
  no text, and a text that contains none of them, yield false.
\<close>

theorem validate_iff_keyword:
  "validate message \<longleftrightarrow>
     (\<exists>c t keyword pre post.
        content message = Some c \<and> content_text c = Some t \<and>
        keyword \<in> {''fetch portfolio'', ''get portfolio'', ''list portfolio balances'',
                    ''portfolio'', ''display portfolio balances''} \<and>
        toLowerCase t = pre @ keyword @ post)"
proof (cases "content message")
  case None
  then have "validate_content message = []" by (simp add: validate_content_def)
  with validate_empty None show ?thesis by simp
next
  case (Some c)
  show ?thesis
  proof (cases "content_text c")
    case None
    with Some have "validate_content message = []" by (simp add: validate_content_def)
    with validate_empty Some None show ?thesis by simp
  next
    case (Some t)
    from validate_text [OF \<open>content message = Some c\<close> Some]
    show ?thesis
      unfolding keywords_set using \<open>content message = Some c\<close> Some by simp
  qed
qed

theorem validate_iff_keyword_witness:
  "validate \<lparr>content = Some \<lparr>content_text = Some ''Please FETCH my Portfolio''\<rparr>\<rparr> \<and>
   toLowerCase ''ABCDEFGHIJKLMNOPQRSTUVWXYZ @[`{09'' = ''abcdefghijklmnopqrstuvwxyz @[`{09'' \<and>
   \<not> validate \<lparr>content = Some \<lparr>content_text = Some ''What is my balance?''\<rparr>\<rparr> \<and>
   \<not> validate \<lparr>content = Some \<lparr>content_text = None\<rparr>\<rparr> \<and>
   \<not> validate \<lparr>content = None\<rparr>"
proof -
  have l: "toLowerCase ''Please FETCH my Portfolio'' = ''please fetch my '' @ ''portfolio'' @ []"
    by code_simp
  have "\<exists>c t keyword pre post.
          content \<lparr>content = Some \<lparr>content_text = Some ''Please FETCH my Portfolio''\<rparr>\<rparr> = Some c \<and>
          content_text c = Some t \<and>
          keyword \<in> {''fetch portfolio'', ''get portfolio'', ''list portfolio balances'',
                      ''portfolio'', ''display portfolio balances''} \<and>
          toLowerCase t = pre @ keyword @ post"
    apply (rule exI [of _ "\<lparr>content_text = Some ''Please FETCH my Portfolio''\<rparr>"])
    apply (rule exI [of _ "''Please FETCH my Portfolio''"])
    apply (rule exI [of _ "''portfolio''"])
    apply (rule exI [of _ "''please fetch my ''"])
    apply (rule exI [of _ "[]"])
    using l apply simp
    done
  then have 1: "validate \<lparr>content = Some \<lparr>content_text = Some ''Please FETCH my Portfolio''\<rparr>\<rparr>"
    by (simp only: validate_iff_keyword)
  have 2: "toLowerCase ''ABCDEFGHIJKLMNOPQRSTUVWXYZ @[`{09'' = ''abcdefghijklmnopqrstuvwxyz @[`{09''"
    by code_simp
  have 3: "\<not> validate \<lparr>content = Some \<lparr>content_text = Some ''What is my balance?''\<rparr>\<rparr>"
    by code_simp
  have 4: "\<not> validate \<lparr>content = Some \<lparr>content_text = None\<rparr>\<rparr>"
    by code_simp
  have 5: "\<not> validate \<lparr>content = None\<rparr>"
    by code_simp
  from 1 2 3 4 5 show ?thesis by blast
qed


section \<open>The address extractor\<close>

lemma address_at_iff: "address_at s = Some a \<longleftrightarrow> is_address a \<and> prefix a s"
proof
  assume h: "address_at s = Some a"
  then have c: "take 2 s = ''0x''" "length (take 40 (drop 2 s)) = 40"
    "list_all isHexDigit (take 40 (drop 2 s))" and a: "a = take 42 s"
    by (auto simp: address_at_def split: if_splits)
  from c(2) have len: "42 \<le> length s" by simp
  have "drop 2 (take 42 s) = take 40 (drop 2 s)" by (simp add: drop_take)
  moreover have "take 2 (take 42 s) = take 2 s" by simp
  ultimately have "is_address a" using c len a by (simp add: is_address_def)
  moreover have "prefix a s" using a by (simp add: take_is_prefix)
  ultimately show "is_address a \<and> prefix a s" by simp
next
  assume h: "is_address a \<and> prefix a s"
  then obtain post where s: "s = a @ post" by (auto simp: prefix_def)
  from h have la: "length a = 42" and t2: "take 2 a = ''0x''" and hx: "list_all isHexDigit (drop 2 a)"
    by (auto simp: is_address_def)
  have 1: "take 42 s = a" using s la by simp
  have 2: "take 2 s = ''0x''" using s la t2 by simp
  have 3: "take 40 (drop 2 s) = drop 2 a" using s la by simp
  show "address_at s = Some a" unfolding address_at_def using 1 2 3 hx la by simp
qed

lemma address_at_None: "address_at s = None \<longleftrightarrow> \<not> (\<exists>a. is_address a \<and> prefix a s)"
  using address_at_iff [of s] by (cases "address_at s") auto

lemma match_address_None:
  "match_address t = None \<Longrightarrow> t = pre @ a @ post \<Longrightarrow> is_address a \<Longrightarrow> False"
proof (induction t arbitrary: pre)
  case Nil
  then show ?case by (simp add: is_address_def)
next
  case (Cons c cs)
  from Cons.prems(1) have n: "address_at (c # cs) = None" and m: "match_address cs = None"
    by (auto split: option.splits)
  show ?case
  proof (cases pre)
    case Nil
    with Cons.prems(2) have "prefix a (c # cs)" by (simp add: prefix_def)
    with n Cons.prems(3) show False by (auto simp: address_at_None)
  next
    case (Cons p ps)
    with Cons.prems(2) have "cs = ps @ a @ post" by simp
    from Cons.IH [OF m this Cons.prems(3)] show False .
  qed
qed

lemma match_address_Some:
  "match_address t = Some a \<Longrightarrow>
     \<exists>pre post. t = pre @ a @ post \<and> is_address a \<and>
       (\<forall>pre' a' post'. t = pre' @ a' @ post' \<and> is_address a' \<longrightarrow> length pre \<le> length pre')"
proof (induction t)
  case Nil
  then show ?case by simp
next
  case (Cons c cs)
  show ?case
  proof (cases "address_at (c # cs)")
    case (Some b)
    with Cons.prems have ba: "b = a" by simp
    with Some have "is_address a" "prefix a (c # cs)" by (auto simp: address_at_iff)
    then obtain post where "c # cs = [] @ a @ post" by (auto simp: prefix_def)
    with \<open>is_address a\<close> show ?thesis by (metis list.size(3) le0)
  next
    case None
    with Cons.prems have m: "match_address cs = Some a" by simp
    from Cons.IH [OF m] obtain pre post where
      eq: "cs = pre @ a @ post" and ia: "is_address a" and
      mn: "\<forall>pre' a' post'. cs = pre' @ a' @ post' \<and> is_address a' \<longrightarrow> length pre \<le> length pre'"
      by blast
    have "\<forall>pre' a' post'. c # cs = pre' @ a' @ post' \<and> is_address a' \<longrightarrow>
            length (c # pre) \<le> length pre'"
    proof (intro allI impI)
      fix pre' a' post'
      assume h: "c # cs = pre' @ a' @ post' \<and> is_address a'"
      show "length (c # pre) \<le> length pre'"
      proof (cases pre')
        case Nil
        with h have "prefix a' (c # cs)" by (simp add: prefix_def)
        with None h show ?thesis by (auto simp: address_at_None)
      next
        case (Cons p ps)
        with h have "cs = ps @ a' @ post'" by simp
        with mn h have "length pre \<le> length ps" by blast
        with Cons show ?thesis by simp
      qed
    qed
    moreover have "c # cs = (c # pre) @ a @ post" using eq by simp
    ultimately show ?thesis using ia by blast
  qed
qed

text \<open>
  C2. The extractor returns the first substring of the text made of \<^verbatim>\<open>0x\<close> and
  40 hexadecimal characters of either case: the result is such a substring of the text,
  taken as it stands there, and no such substring starts before it. A text with no
  such substring gives no match.
\<close>

theorem match_address_first:
  "(case match_address t of
      None \<Rightarrow> \<not> (\<exists>pre a post. t = pre @ a @ post \<and> is_address a)
    | Some a \<Rightarrow>
        is_address a \<and>
        (\<exists>pre post. t = pre @ a @ post \<and>
           (\<forall>pre' a' post'. t = pre' @ a' @ post' \<and> is_address a' \<longrightarrow>
              length pre \<le> length pre')))"
proof (cases "match_address t")
  case None
  then show ?thesis using match_address_None by auto
next
  case (Some a)
  from match_address_Some [OF Some] show ?thesis using Some by auto
qed

theorem match_address_first_witness:
  "match_address
     ''Compare 0xEF7F2e81EA14538858d962df34eB1bFDa83da395 with 0x00000000219ab540356cBB839Cbe05303d7705Fa''
     = Some ''0xEF7F2e81EA14538858d962df34eB1bFDa83da395'' \<and>
   is_address ''0x00000000219ab540356cBB839Cbe05303d7705Fa'' \<and>
   (\<exists>pre post.
      ''Compare 0xEF7F2e81EA14538858d962df34eB1bFDa83da395 with 0x00000000219ab540356cBB839Cbe05303d7705Fa''
        = pre @ ''0xEF7F2e81EA14538858d962df34eB1bFDa83da395'' @ post \<and>
      length pre \<le> 56)"
proof -
  define t where
    "t = ''Compare 0xEF7F2e81EA14538858d962df34eB1bFDa83da395 with 0x00000000219ab540356cBB839Cbe05303d7705Fa''"
  define a1 where "a1 = ''0xEF7F2e81EA14538858d962df34eB1bFDa83da395''"
  define a2 where "a2 = ''0x00000000219ab540356cBB839Cbe05303d7705Fa''"
  have m: "match_address t = Some a1"
    unfolding t_def a1_def by (simp add: address_at_def isHexDigit_def)
  have i2: "is_address a2"
    unfolding a2_def by (simp add: is_address_def isHexDigit_def)
  have s2: "t = ''Compare 0xEF7F2e81EA14538858d962df34eB1bFDa83da395 with '' @ a2 @ []"
    unfolding t_def a2_def by simp
  from match_address_first [of t] m obtain pre post where
    eq: "t = pre @ a1 @ post" and
    mn: "\<forall>pre' a' post'. t = pre' @ a' @ post' \<and> is_address a' \<longrightarrow> length pre \<le> length pre'"
    by auto
  from mn s2 i2
  have "length pre \<le> length ''Compare 0xEF7F2e81EA14538858d962df34eB1bFDa83da395 with ''"
    by blast
  then have "length pre \<le> 56" by simp
  with eq m i2 show ?thesis unfolding t_def a1_def a2_def by blast
qed
section \<open>The provider\<close>

lemma get_try_no_key:
  "OCTAV_API_KEY h = None \<or> OCTAV_API_KEY h = Some [] \<Longrightarrow>
   get_try h message = (Inl (ErrorInstance ''Octav API not found''), [])"
  by (simp add: get_try_def)

text \<open>
  C4. While \<^verbatim>\<open>OCTAV_API_KEY\<close> is absent, the provider sends no request and returns a
  result that has a \<^verbatim>\<open>text\<close>, the configuration error message, and no
  \<^verbatim>\<open>success\<close>.
\<close>

theorem provider_get_missing_key:
  assumes "OCTAV_API_KEY h = None"
  shows "\<exists>r. provider_get h message = (Inr r, []) \<and>
             map_of r ''success'' = None \<and>
             map_of r ''text'' = Some (JString ''Octav API not found'')"
proof -
  have "get_try h message = (Inl (ErrorInstance ''Octav API not found''), [])"
    using assms by (simp add: get_try_no_key)
  then have "provider_get h message = (Inr [(''text'', JString ''Octav API not found'')], [])"
    by (simp add: provider_get_def)
  then show ?thesis by simp
qed

theorem provider_get_missing_key_witness:
  "OCTAV_API_KEY no_key_host = None \<and>
   (\<exists>r. provider_get no_key_host
          \<lparr>content = Some \<lparr>content_text = Some ''get portfolio''\<rparr>\<rparr> = (Inr r, []) \<and>
        map_of r ''success'' = None \<and>
        map_of r ''text'' = Some (JString ''Octav API not found''))"
proof -
  have k: "OCTAV_API_KEY no_key_host = None" by (simp add: no_key_host_def)
  from provider_get_missing_key [OF k] k show ?thesis by blast
qed


text \<open>The request the provider sends for an address.\<close>

lemma get_try_fetch:
  assumes "OCTAV_API_KEY h = Some k" "k \<noteq> []" "content message = Some c"
    "content_text c = Some t" "match_address t = Some a"
  shows "get_try h message =
     (let req = \<lparr>req_url = OCTAV_API_URL @ ''/v1/portfolio?addresses='' @ a,
                  req_method = ''GET'', req_authorization = ''Bearer '' @ k\<rparr>
      in case fetch h req of
           Inl e \<Rightarrow> (Inl e, [req])
         | Inr responseRaw \<Rightarrow>
             if \<not> resp_ok responseRaw then
               (Inl (ErrorInstance (''Failed to fetch portfolio balances for '' @ a @ '': '' @
                                    resp_statusText responseRaw)), [req])
             else
               (case resp_json responseRaw of
                  Inl e \<Rightarrow> (Inl e, [req])
                | Inr data \<Rightarrow>
                    (Inr [(''data'', case data of [] \<Rightarrow> JUndefined | d # _ \<Rightarrow> JPortfolio d)],
                     [req])))"
  using assms by (simp add: get_try_def Let_def)

text \<open>
  C5. When the key is set and the text holds an address, the provider sends one request
  for that address. On a status that is not a success the fetch fails with the message
  \<^verbatim>\<open>Failed to fetch portfolio balances for <address>: <statusText>\<close>, which the
  provider returns as its text; on a success status whose body parses to an array, the
  result data is element 0 of the array (undefined when the array is empty).
\<close>

theorem provider_get_status:
  assumes "OCTAV_API_KEY h = Some k" and "k \<noteq> []"
    and "content message = Some c" and "content_text c = Some t"
    and "match_address t = Some a"
    and "fetch h \<lparr>req_url = OCTAV_API_URL @ ''/v1/portfolio?addresses='' @ a,
                   req_method = ''GET'', req_authorization = ''Bearer '' @ k\<rparr> = Inr responseRaw"
  shows "if \<not> resp_ok responseRaw then
           fst (get_try h message) =
             Inl (ErrorInstance (''Failed to fetch portfolio balances for '' @ a @ '': '' @
                                 resp_statusText responseRaw)) \<and>
           fst (provider_get h message) =
             Inr [(''text'', JString (''Failed to fetch portfolio balances for '' @ a @ '': '' @
                                      resp_statusText responseRaw))]
         else
           (case resp_json responseRaw of
              Inr (d # ds) \<Rightarrow> fst (provider_get h message) = Inr [(''data'', JPortfolio d)]
            | Inr [] \<Rightarrow> fst (provider_get h message) = Inr [(''data'', JUndefined)]
            | Inl e \<Rightarrow> fst (get_try h message) = Inl e)"
  using get_try_fetch [OF assms(1-5)] assms(6)
  by (auto simp: provider_get_def Let_def split: sum.splits list.splits thrown.splits)

theorem provider_get_status_witness:
  "fst (provider_get refusing_host example_message) =
     Inr [(''text'',
           JString ''Failed to fetch portfolio balances for 0xEF7F2e81EA14538858d962df34eB1bFDa83da395: Unauthorized'')]"
proof -
  have m: "match_address ''Can you fetch portfolio balances of 0xEF7F2e81EA14538858d962df34eB1bFDa83da395''
             = Some ''0xEF7F2e81EA14538858d962df34eB1bFDa83da395''"
    by (simp add: address_at_def isHexDigit_def)
  have k: "OCTAV_API_KEY refusing_host = Some ''secret''" "''secret'' \<noteq> []"
    by (simp_all add: refusing_host_def)
  have c: "content example_message =
             Some \<lparr>content_text = Some ''Can you fetch portfolio balances of 0xEF7F2e81EA14538858d962df34eB1bFDa83da395''\<rparr>"
    by (simp add: example_message_def)
  have t: "content_text \<lparr>content_text = Some ''Can you fetch portfolio balances of 0xEF7F2e81EA14538858d962df34eB1bFDa83da395''\<rparr>
             = Some ''Can you fetch portfolio balances of 0xEF7F2e81EA14538858d962df34eB1bFDa83da395''"
    by simp
  have f: "fetch refusing_host
             \<lparr>req_url = OCTAV_API_URL @ ''/v1/portfolio?addresses='' @
                          ''0xEF7F2e81EA14538858d962df34eB1bFDa83da395'',
              req_method = ''GET'', req_authorization = ''Bearer '' @ ''secret''\<rparr>
             = Inr unauthorized"
    by (simp add: refusing_host_def)
  from provider_get_status [OF k c t m f]
  show ?thesis by (simp add: unauthorized_def)
qed

lemma provider_get_returns:
  assumes "\<And>ts s js. fst (get_try h message) = Inl (OtherThrown ts s js) \<Longrightarrow> ts"
  shows "\<exists>r sent. provider_get h message = (Inr r, sent) \<and>
           ((\<exists>t. r = [(''text'', JString t)]) \<or> (\<exists>v. r = [(''data'', v)]))"
proof (cases "get_try h message")
  case (Pair got sent)
  show ?thesis
  proof (cases got)
    case (Inr r)
    with Pair have "\<exists>v. r = [(''data'', v)]"
      by (auto simp: get_try_def Let_def split: option.splits sum.splits if_splits)
    with Pair Inr show ?thesis by (simp add: provider_get_def)
  next
    case (Inl e)
    with Pair assms show ?thesis
      by (cases e) (auto simp: provider_get_def)
  qed
qed

lemma provider_get_data:
  "(\<exists>v sent. provider_get h message = (Inr [(''data'', v)], sent)) \<longleftrightarrow>
     (\<exists>k c t a responseRaw data.
        OCTAV_API_KEY h = Some k \<and> k \<noteq> [] \<and> content message = Some c \<and>
        content_text c = Some t \<and> match_address t = Some a \<and>
        fetch h \<lparr>req_url = OCTAV_API_URL @ ''/v1/portfolio?addresses='' @ a,
                  req_method = ''GET'', req_authorization = ''Bearer '' @ k\<rparr>
          = Inr responseRaw \<and>
        resp_ok responseRaw \<and> resp_json responseRaw = Inr data)"
  by (auto simp: provider_get_def get_try_def Let_def
           split: option.splits sum.splits prod.splits if_splits thrown.splits)


section \<open>The action's handler\<close>







section \<open>Numbers\<close>

subsection \<open>Evaluation\<close>

lemma bit_length_0: "bit_length 0 = 0"
  by (simp add: bit_length.simps)

lemma bit_length_pos: "0 < n \<Longrightarrow> bit_length n = Suc (bit_length (n div 2))"
  by (subst bit_length.simps) simp

lemma decimal_small: "n < 10 \<Longrightarrow> decimal n = [digit_char n]"
  by (subst decimal.simps) simp

lemma decimal_large:
  "10 \<le> n \<Longrightarrow> decimal n = decimal (n div 10) @ [digit_char (n mod 10)]"
  by (subst decimal.simps) simp

lemma strip_leading_none:
  "find (\<lambda>w. w \<noteq> [] \<and> prefix w s) ws = None \<Longrightarrow> strip_leading ws s = s"
  by (subst strip_leading.simps) simp

lemma strip_leading_some:
  "find (\<lambda>w. w \<noteq> [] \<and> prefix w s) ws = Some w \<Longrightarrow>
   strip_leading ws s = strip_leading ws (drop (length w) s)"
  by (subst strip_leading.simps) simp

lemma shortest_from_numeral:
  "shortest_from x k (numeral j) =
     (case nearest x k (candidates x k) of
        Some (s, n) \<Rightarrow> Some (k, s, n)
      | None \<Rightarrow> shortest_from x (Suc k) (pred_numeral j))"
  by (simp add: numeral_eq_Suc)

lemmas double_eval =
  toDouble_def floor_log2_def round_half_even_def bit_length_0 bit_length_pos
  power_int_minus Let_def

lemmas number_eval =
  Number_def trim_def strip_leading_none strip_leading_some strWhiteSpaceChar_def
  nonDecimalIntegerLiteral_def strDecimalLiteral_def unsignedDecimalLiteral_def
  exponentPart_def isDecimalDigit_def digit_value_def is_digit_of_def digits_value_def
  negate_def double_eval

lemmas toFixed_eval =
  toFixed_def decimal_small decimal_large digit_char_def Let_def

lemmas toString_eval =
  numberToString_large_def shortest_def shortest_from_numeral nearest_def candidates_def
  rounds_to_def decimal_small decimal_large digit_char_def double_eval

subsection \<open>The digits of a number\<close>



lemma decimal_nonempty: "decimal n \<noteq> []"
  by (subst decimal.simps) simp






subsection \<open>Two decimal places\<close>



subsection \<open>The values of the specification\<close>





lemma Number_huge: "Number ''1000000000000000000000'' = Finite 1000000000000000000000"
  by (simp add: number_eval)

lemma toString_huge: "numberToString_large 1000000000000000000000 = ''1e+21''"
  by (simp add: toString_eval)

lemma toFixed_huge: "toFixed 2 (Finite 1000000000000000000000) = ''1e+21''"
  by (simp add: toFixed_def toString_huge)





section \<open>The formatter\<close>

subsection \<open>The order of \<^verbatim>\<open>Object.entries\<close>\<close>

lemma mset_Object_entries: "mset (Object_entries obj) = mset obj"
  by (simp add: Object_entries_def)

lemma Object_entries_Nil: "Object_entries obj = [] \<longleftrightarrow> obj = []"
  using mset_Object_entries [of obj] by (metis mset_zero_iff)

lemma Object_entries_named:
  "list_all (\<lambda>p. \<not> isArrayIndex (fst p)) obj \<Longrightarrow> Object_entries obj = obj"
  by (simp add: Object_entries_def list_all_iff filter_empty_conv [THEN iffD2])

lemma Object_entries_split:
  "\<exists>idx. Object_entries obj = idx @ filter (\<lambda>p. \<not> isArrayIndex (fst p)) obj \<and>
         mset idx = mset (filter (\<lambda>p. isArrayIndex (fst p)) obj) \<and>
         sorted (map (\<lambda>p. digits_value 10 (fst p)) idx)"
  by (rule exI [of _ "sort_key (\<lambda>p. digits_value 10 (fst p))
                        (filter (\<lambda>p. isArrayIndex (fst p)) obj)"])
     (simp add: Object_entries_def)

subsection \<open>The lines of a section\<close>

lemma join_nonempty: "ls \<noteq> [] \<Longrightarrow> hd ls \<noteq> [] \<Longrightarrow> join sep ls \<noteq> []"
  by (cases "(sep, ls)" rule: join.cases) auto

lemma line_nonempty: "line name v \<noteq> []"
  by (simp add: line_def)

lemma networthPerChain_Nil: "networthPerChain portfolioBalances = [] \<longleftrightarrow> chains portfolioBalances = []"
proof
  assume e: "networthPerChain portfolioBalances = []"
  show "chains portfolioBalances = []"
  proof (rule ccontr)
    assume "chains portfolioBalances \<noteq> []"
    then have n: "Object_entries (chains portfolioBalances) \<noteq> []"
      by (simp add: Object_entries_Nil)
    then have "map (\<lambda>(chainKey, chain). line (chain_name chain) (chain_value chain))
                 (Object_entries (chains portfolioBalances)) \<noteq> []"
      by simp
    moreover have "hd (map (\<lambda>(chainKey, chain). line (chain_name chain) (chain_value chain))
                     (Object_entries (chains portfolioBalances))) \<noteq> []"
      using n by (simp add: hd_map line_nonempty split: prod.splits)
    ultimately show False using e join_nonempty unfolding networthPerChain_def by blast
  qed
next
  assume "chains portfolioBalances = []"
  then show "networthPerChain portfolioBalances = []"
    by (simp add: networthPerChain_def Object_entries_def)
qed

lemma format_chain_part:
  "\<exists>pre post. formatPortfolioBalancesResponse Array_sort portfolioBalances =
     pre @ ''Networth per Chain:'' @ NL @ ''-----------------------------'' @ NL @
     chainSection portfolioBalances @ NL @ post"
  unfolding formatPortfolioBalancesResponse_def
  by (metis append_assoc)


subsection \<open>The chain section\<close>

lemma Number_1: "Number ''1'' = Finite 1"
  by (simp add: number_eval)

lemma Number_2: "Number ''2'' = Finite 2"
  by (simp add: number_eval)

lemma toFixed_1: "toFixed 2 (Finite 1) = ''1.00''"
  by (simp add: toFixed_eval)

lemma toFixed_2: "toFixed 2 (Finite 2) = ''2.00''"
  by (simp add: toFixed_eval)

lemma isArrayIndex_examples:
  "isArrayIndex ''1''" "\<not> isArrayIndex ''eth''" "\<not> isArrayIndex ''arb''"
  by (simp_all add: isArrayIndex_def isDecimalDigit_def digits_value_def digit_value_def)

text \<open>
  C7 (as amended). The chain section holds the placeholder line when the chains mapping
  is empty, and otherwise one line \<^verbatim>\<open><chain.name>: $<Number(chain.value).toFixed(2)>\<close>
  for each entry of the mapping, in the order of \<^verbatim>\<open>Object.entries\<close>: the entries whose
  key is an array index first, by ascending index, then the other entries in the order of
  their insertion. So a mapping with no such key is listed in its insertion order.
\<close>

theorem chain_section:
  "chainSection portfolioBalances =
     (if chains portfolioBalances = [] then ''No data available for chains.''
      else join NL
             (map (\<lambda>(chainKey, chain).
                     chain_name chain @ '': $'' @ toFixed 2 (Number (chain_value chain)))
                (Object_entries (chains portfolioBalances)))) \<and>
   mset (Object_entries (chains portfolioBalances)) = mset (chains portfolioBalances) \<and>
   (\<exists>idx. Object_entries (chains portfolioBalances) =
            idx @ filter (\<lambda>p. \<not> isArrayIndex (fst p)) (chains portfolioBalances) \<and>
          mset idx = mset (filter (\<lambda>p. isArrayIndex (fst p)) (chains portfolioBalances)) \<and>
          sorted (map (\<lambda>p. digits_value 10 (fst p)) idx)) \<and>
   (list_all (\<lambda>p. \<not> isArrayIndex (fst p)) (chains portfolioBalances) \<longrightarrow>
      Object_entries (chains portfolioBalances) = chains portfolioBalances) \<and>
   (\<exists>pre post. formatPortfolioBalancesResponse Array_sort portfolioBalances =
      pre @ ''Networth per Chain:'' @ NL @ ''-----------------------------'' @ NL @
      chainSection portfolioBalances @ NL @ post)"
proof -
  have "chainSection portfolioBalances =
     (if chains portfolioBalances = [] then ''No data available for chains.''
      else join NL
             (map (\<lambda>(chainKey, chain).
                     chain_name chain @ '': $'' @ toFixed 2 (Number (chain_value chain)))
                (Object_entries (chains portfolioBalances))))"
    unfolding chainSection_def networthPerChain_Nil
    by (simp add: networthPerChain_def line_def)
  with mset_Object_entries Object_entries_split Object_entries_named format_chain_part
  show ?thesis by blast
qed

theorem chain_section_witness:
  "list_all (\<lambda>p. \<not> isArrayIndex (fst p))
     [(''eth'', a_chain ''eth'' ''Ethereum'' ''1''), (''arb'', a_chain ''arb'' ''Arbitrum'' ''2'')] \<and>
   chainSection
     (example_portfolio
        \<lparr>chains := [(''eth'', a_chain ''eth'' ''Ethereum'' ''1''),
                    (''arb'', a_chain ''arb'' ''Arbitrum'' ''2'')]\<rparr>)
     = ''Ethereum: $1.00'' @ NL @ ''Arbitrum: $2.00'' \<and>
   chainSection (example_portfolio\<lparr>chains := []\<rparr>) = ''No data available for chains.''"
proof -
  define pb where
    "pb = example_portfolio
            \<lparr>chains := [(''eth'', a_chain ''eth'' ''Ethereum'' ''1''),
                        (''arb'', a_chain ''arb'' ''Arbitrum'' ''2'')]\<rparr>"
  have c: "chains pb = [(''eth'', a_chain ''eth'' ''Ethereum'' ''1''),
                        (''arb'', a_chain ''arb'' ''Arbitrum'' ''2'')]"
    by (simp add: pb_def)
  have n: "list_all (\<lambda>p. \<not> isArrayIndex (fst p)) (chains pb)"
    unfolding c by (simp add: isArrayIndex_examples)
  from chain_section [of pb] n
  have o: "Object_entries (chains pb) = chains pb" by blast
  from chain_section [of pb]
  have "chainSection pb =
     join NL
       (map (\<lambda>(chainKey, chain).
               chain_name chain @ '': $'' @ toFixed 2 (Number (chain_value chain)))
          (Object_entries (chains pb)))"
    using c by simp
  then have 1: "chainSection pb = ''Ethereum: $1.00'' @ NL @ ''Arbitrum: $2.00''"
    unfolding o unfolding c
    by (simp add: a_chain_def Number_1 Number_2 toFixed_1 toFixed_2)
  from chain_section [of "example_portfolio\<lparr>chains := []\<rparr>"]
  have 2: "chainSection (example_portfolio\<lparr>chains := []\<rparr>) = ''No data available for chains.''"
    by simp
  from 1 2 n show ?thesis unfolding pb_def c by simp
qed

text \<open>
  The claim as stated fails: the chains \<^verbatim>\<open>eth\<close> and \<^verbatim>\<open>1\<close>, inserted in this
  order, are listed with \<^verbatim>\<open>1\<close> first; and a chain worth \<open>10 ^ 21\<close> is listed with no
  decimal place.
\<close>

theorem chain_section_counterexample:
  "map fst (chains example_portfolio) = [''eth'', ''1''] \<and>
   chainSection example_portfolio = ''One: $2.00'' @ NL @ ''Ethereum: $1.00'' \<and>
   chainSection example_portfolio \<noteq>
     join NL
       (map (\<lambda>(chainKey, chain).
               chain_name chain @ '': $'' @ toFixed 2 (Number (chain_value chain)))
          (chains example_portfolio)) \<and>
   chainSection
     (huge_portfolio\<lparr>chains := [(''eth'', a_chain ''eth'' ''Ethereum'' ''1000000000000000000000'')]\<rparr>)
     = ''Ethereum: $1e+21''"
proof -
  have h: "chainSection
     (huge_portfolio\<lparr>chains := [(''eth'', a_chain ''eth'' ''Ethereum'' ''1000000000000000000000'')]\<rparr>)
     = ''Ethereum: $1e+21''"
    by (simp add: chainSection_def networthPerChain_def Object_entries_def isArrayIndex_examples
        line_def a_chain_def Number_huge toFixed_huge)
  have c: "chains example_portfolio =
             [(''eth'', a_chain ''eth'' ''Ethereum'' ''1''), (''1'', a_chain ''1'' ''One'' ''2'')]"
    by (simp add: example_portfolio_def)
  have o: "Object_entries (chains example_portfolio) =
             [(''1'', a_chain ''1'' ''One'' ''2''), (''eth'', a_chain ''eth'' ''Ethereum'' ''1'')]"
    unfolding c by (simp add: Object_entries_def isArrayIndex_examples)
  have n: "networthPerChain example_portfolio = ''One: $2.00'' @ NL @ ''Ethereum: $1.00''"
    unfolding networthPerChain_def o
    by (simp add: line_def a_chain_def Number_1 Number_2 toFixed_1 toFixed_2)
  then have s: "chainSection example_portfolio = ''One: $2.00'' @ NL @ ''Ethereum: $1.00''"
    by (simp add: chainSection_def)
  have i: "join NL
       (map (\<lambda>(chainKey, chain).
               chain_name chain @ '': $'' @ toFixed 2 (Number (chain_value chain)))
          (chains example_portfolio)) = ''Ethereum: $1.00'' @ NL @ ''One: $2.00''"
    unfolding c by (simp add: a_chain_def Number_1 Number_2 toFixed_1 toFixed_2)
  show ?thesis unfolding s i using c h by simp
qed


subsection \<open>The stable sort\<close>









subsection \<open>The comparison of the protocols\<close>




subsection \<open>The Wallet step\<close>






subsection \<open>The protocol section\<close>



















section \<open>Two calls of the formatter\<close>

lemma format_heap_text:
  "fst (formatPortfolioBalancesResponse_heap Array_sort ref h) =
     formatPortfolioBalancesResponse Array_sort (portfolios h ref)"
  by (simp add: formatPortfolioBalancesResponse_heap_def formatPortfolioBalancesResponse_def
      new_array_def sort_in_place_def splice_one_def unshift_def Let_def
      protocolSection_def networthProtocolStr_def networthPerProtocol_def sortedProtocols_def)

lemma format_heap_portfolios:
  "portfolios (snd (formatPortfolioBalancesResponse_heap Array_sort ref h)) = portfolios h"
  by (simp add: formatPortfolioBalancesResponse_heap_def new_array_def sort_in_place_def
      splice_one_def unshift_def Let_def)

lemma format_heap_arrays:
  "a < next_array h \<Longrightarrow>
   arrays (snd (formatPortfolioBalancesResponse_heap Array_sort ref h)) a = arrays h a"
  by (simp add: formatPortfolioBalancesResponse_heap_def new_array_def sort_in_place_def
      splice_one_def unshift_def Let_def)

text \<open>
  C9. The formatter is deterministic: two calls on the same portfolio, the second on the
  heap the first has left, return the same text. The first call writes only to the
  array it has made itself, so it leaves the portfolios as they were (and every array
  there was), and the text is a function of the portfolio alone.
\<close>

theorem format_twice:
  "(let (first, h1) = formatPortfolioBalancesResponse_heap Array_sort ref h;
        (second, h2) = formatPortfolioBalancesResponse_heap Array_sort ref h1
    in first = second \<and>
       first = formatPortfolioBalancesResponse Array_sort (portfolios h ref) \<and>
       portfolios h1 = portfolios h)"
proof -
  obtain first h1 where 1: "formatPortfolioBalancesResponse_heap Array_sort ref h = (first, h1)"
    by (cases "formatPortfolioBalancesResponse_heap Array_sort ref h")
  obtain second h2 where 2: "formatPortfolioBalancesResponse_heap Array_sort ref h1 = (second, h2)"
    by (cases "formatPortfolioBalancesResponse_heap Array_sort ref h1")
  from 1 have f: "first = formatPortfolioBalancesResponse Array_sort (portfolios h ref)"
    using format_heap_text [of Array_sort ref h] by simp
  from 1 have p: "portfolios h1 = portfolios h"
    using format_heap_portfolios [of Array_sort ref h] by simp
  from 2 have "second = formatPortfolioBalancesResponse Array_sort (portfolios h1 ref)"
    using format_heap_text [of Array_sort ref h1] by simp
  with f p have "first = second" by simp
  with f p show ?thesis by (simp add: 1 2)
qed


end
